theory Spec2Isabelle
  imports Complex_Main "HOL-Library.Sublist" "HOL-Library.AList"
begin

section \<open>Python values, exceptions and the object store\<close>

text \<open>
  The two notebooks are Python 2 scripts run cell by cell against an imported toolkit.
  A Python float is modelled by a real number. An agent instance is a cell of the object
  store holding its attribute dictionary, and a name is bound to an instance by a
  reference to that cell. What an attribute holds (numbers, parameter lists, the
  per-period solutions) is plain data kept by value in the owner's cell: the notebooks
  never bind a second name to it, and no agent refers to another agent.
\<close>

type_synonym addr = nat

datatype val =
    VNone
  | VBool bool
  | VInt int
  | VFloat real
  | VNaN
  | VStr string
  | VList "val list"
  | VArray "real list"
  | VObj "(string \<times> val) list"
  | VExt string

text \<open>
  \<open>VArray\<close> is a one-dimensional numpy array of floats, \<open>VObj\<close> an object kept by
  value (a per-period solution), \<open>VExt\<close> an opaque object of an imported module
  (a module, a class, a function such as a consumption function).

  What a name is bound to, and what an expression yields: plain data, a reference to
  an agent instance, or a list of such references (as \<open>MyTypes\<close>).
\<close>

datatype pyval = Val val | Ref addr | Refs "addr list"

datatype error =
    NameError string
  | AttributeError string
  | IndexError
  | TypeError
  | ValueError
  | SyntaxError
  | IndentationError
  | SystemError
  | ToolkitError string
  | ImportError string
  | Unmodelled string

text \<open>
  \<open>SystemError\<close> stands for a reference to a cell the store does not have; no name of
  a running session holds one. \<open>ToolkitError\<close> is any exception of the toolkit's own.
\<close>

type_synonym obj = "string \<rightharpoonup> val"

type_synonym heap = "obj list"

definition ebind :: "error + 'a \<Rightarrow> ('a \<Rightarrow> error + 'b) \<Rightarrow> error + 'b" where
  "ebind m f = (case m of Inl e \<Rightarrow> Inl e | Inr x \<Rightarrow> f x)"

text \<open>Attribute read \<open>x.f\<close> on an instance held in the store.\<close>

definition getattr :: "heap \<Rightarrow> addr \<Rightarrow> string \<Rightarrow> error + val" where
  "getattr h a f =
     (if a < length h
      then (case (h ! a) f of None \<Rightarrow> Inl (AttributeError f) | Some v \<Rightarrow> Inr v)
      else Inl SystemError)"

text \<open>Attribute assignment \<open>x.f = v\<close>.\<close>

definition setattr :: "heap \<Rightarrow> addr \<Rightarrow> string \<Rightarrow> val \<Rightarrow> error + heap" where
  "setattr h a f v =
     (if a < length h then Inr (h[a := (h ! a)(f \<mapsto> v)]) else Inl SystemError)"

text \<open>
  \<open>copy.deepcopy(x)\<close> of an instance: a new instance with a copy of the whole
  attribute dictionary, at an address no existing name refers to. Cells hold plain data
  only, so the copy shares nothing with the original.
\<close>

definition deepcopy :: "heap \<Rightarrow> addr \<Rightarrow> error + (addr \<times> heap)" where
  "deepcopy h a =
     (if a < length h then Inr (length h, h @ [h ! a]) else Inl SystemError)"


text \<open>
  Subscription \<open>x[i]\<close> with an integer: from the front for \<open>0 \<le> i\<close>, from the back
  for \<open>i < 0\<close>, \<open>IndexError\<close> outside \<open>-len(x) .. len(x)-1\<close>.
\<close>

definition py_index :: "'a list \<Rightarrow> int \<Rightarrow> error + 'a" where
  "py_index xs i =
     (if 0 \<le> i \<and> i < int (length xs) then Inr (xs ! nat i)
      else if i < 0 \<and> - int (length xs) \<le> i then Inr (xs ! nat (int (length xs) + i))
      else Inl IndexError)"

definition getitem :: "val \<Rightarrow> int \<Rightarrow> error + val" where
  "getitem v i =
     (case v of
        VList xs \<Rightarrow> py_index xs i
      | VArray xs \<Rightarrow> ebind (py_index xs i) (\<lambda>x. Inr (VFloat x))
      | _ \<Rightarrow> Inl TypeError)"

section \<open>Parameter dictionaries\<close>

text \<open>
  \<open>PF_dictionary\<close> of the introductory notebook and \<open>cstwMPC_calibrated_parameters\<close>
  of the impatient-households notebook, in the order they are written.
  \<open>x**y\<close> on floats is \<open>powr\<close>, \<open>np.log\<close> the natural logarithm.
\<close>

definition PF_dictionary :: "(string \<times> val) list" where
  "PF_dictionary =
     [(''CRRA'', VFloat 2.5),
      (''DiscFac'', VFloat 0.96),
      (''Rfree'', VFloat 1.03),
      (''LivPrb'', VList [VFloat 0.98]),
      (''PermGroFac'', VList [VFloat 1.01]),
      (''T_cycle'', VInt 1),
      (''cycles'', VInt 0),
      (''AgentCount'', VInt 10000)]"

definition cstwMPC_calibrated_parameters :: "(string \<times> val) list" where
  "cstwMPC_calibrated_parameters =
     [(''CRRA'', VFloat 1.0),
      (''Rfree'', VFloat (1.01 / (1.0 - 1.0 / 160.0))),
      (''PermGroFac'', VList [VFloat (1.000 powr 0.25)]),
      (''PermGroFacAgg'', VFloat 1.0),
      (''BoroCnstArt'', VFloat 0.0),
      (''CubicBool'', VBool False),
      (''vFuncBool'', VBool False),
      (''PermShkStd'', VList [VFloat ((0.01 * 4 / 11) powr 0.5)]),
      (''PermShkCount'', VInt 5),
      (''TranShkStd'', VList [VFloat ((0.01 * 4) powr 0.5)]),
      (''TranShkCount'', VInt 5),
      (''UnempPrb'', VFloat 0.07),
      (''IncUnemp'', VFloat 0.15),
      (''UnempPrbRet'', VNone),
      (''IncUnempRet'', VNone),
      (''aXtraMin'', VFloat 0.00001),
      (''aXtraMax'', VInt 40),
      (''aXtraCount'', VInt 32),
      (''aXtraExtra'', VList [VNone]),
      (''aXtraNestFac'', VInt 3),
      (''LivPrb'', VList [VFloat (1.0 - 1.0 / 160.0)]),
      (''DiscFac'', VFloat 0.97),
      (''cycles'', VInt 0),
      (''T_cycle'', VInt 1),
      (''T_retire'', VInt 0),
      (''T_sim'', VInt 1200),
      (''T_age'', VInt 400),
      (''IndL'', VFloat (10.0 / 9.0)),
      (''aNrmInitMean'', VFloat (ln 0.00001)),
      (''aNrmInitStd'', VFloat 0.0),
      (''pLvlInitMean'', VFloat 0.0),
      (''pLvlInitStd'', VFloat 0.0),
      (''AgentCount'', VInt 10000)]"

text \<open>A numeric scalar is an int or a float; a numeric value is such a scalar or a list of them.\<close>

fun is_number :: "val \<Rightarrow> bool" where
  "is_number (VInt _) = True"
| "is_number (VFloat _) = True"
| "is_number _ = False"

fun numeric_value :: "val \<Rightarrow> bool" where
  "numeric_value (VList xs) = list_all is_number xs"
| "numeric_value (VArray xs) = True"
| "numeric_value v = is_number v"

definition non_numeric_entries :: "(string \<times> val) list \<Rightarrow> (string \<times> val) list" where
  "non_numeric_entries d = filter (\<lambda>kv. \<not> numeric_value (snd kv)) d"


section \<open>The construction of the types and the aggregate, on attribute values\<close>

text \<open>
  The cell that constructs the seven types and the line that computes the aggregate,
  read on the store of attribute dictionaries held by value: what they say is about
  the values the attributes hold. The same cells are run in a session, on a store of
  objects that refer to one another, further down.
\<close>

definition num_types :: nat where
  "num_types = 7"

definition DiscFac_mean :: real where
  "DiscFac_mean = 0.98556"

definition DiscFac_spread :: real where
  "DiscFac_spread = 0.0085"

text \<open>
  The construction loop:
  \<^verbatim>\<open>
  for nn in range(num_types):
      NewType = deepcopy(BaselineType)
      NewType.DiscFac = DiscFac_dstn[nn]
      NewType.seed = nn
      MyTypes.append(NewType)
  \<close>
\<close>

fun make_types :: "addr \<Rightarrow> val \<Rightarrow> nat list \<Rightarrow> heap \<times> addr list \<Rightarrow> error + heap \<times> addr list" where
  "make_types BaselineType DiscFac_dstn [] (h, MyTypes) = Inr (h, MyTypes)"
| "make_types BaselineType DiscFac_dstn (nn # rest) (h, MyTypes) =
     ebind (deepcopy h BaselineType) (\<lambda>(NewType, h1).
     ebind (getitem DiscFac_dstn (int nn)) (\<lambda>d.
     ebind (setattr h1 NewType ''DiscFac'' d) (\<lambda>h2.
     ebind (setattr h2 NewType ''seed'' (VInt (int nn))) (\<lambda>h3.
     make_types BaselineType DiscFac_dstn rest (h3, MyTypes @ [NewType])))))"

text \<open>
  The whole cell. The class \<open>IndShockConsumerType\<close> and \<open>approxUniform\<close> come from
  the toolkit: the first builds the attribute dictionary of a new instance from the
  keyword arguments, the second returns a list whose item 1 holds the points.
  The cell returns the store, \<open>BaselineType\<close> and \<open>MyTypes\<close>.
\<close>

definition construct_types ::
  "((string \<times> val) list \<Rightarrow> error + obj) \<Rightarrow> (nat \<Rightarrow> real \<Rightarrow> real \<Rightarrow> error + val) \<Rightarrow>
   heap \<Rightarrow> error + heap \<times> addr \<times> addr list" where
  "construct_types IndShockConsumerType approxUniform h =
     ebind (IndShockConsumerType cstwMPC_calibrated_parameters) (\<lambda>base.
     ebind (approxUniform num_types (DiscFac_mean - DiscFac_spread)
              (DiscFac_mean + DiscFac_spread)) (\<lambda>r.
     ebind (getitem r 1) (\<lambda>DiscFac_dstn.
     ebind (make_types (length h) DiscFac_dstn [0..<num_types] (h @ [base], [])) (\<lambda>(h', MyTypes).
     Inr (h', length h, MyTypes)))))"

text \<open>
  The values of \<open>BaselineType.f\<close> and \<open>MyTypes[i].f\<close> read once the cell has run.
\<close>

definition BaselineType_attr :: "error + heap \<times> addr \<times> addr list \<Rightarrow> string \<Rightarrow> error + val" where
  "BaselineType_attr r f = ebind r (\<lambda>(h', BaselineType, MyTypes). getattr h' BaselineType f)"

definition MyTypes_attr :: "error + heap \<times> addr \<times> addr list \<Rightarrow> int \<Rightarrow> string \<Rightarrow> error + val" where
  "MyTypes_attr r i f =
     ebind r (\<lambda>(h', BaselineType, MyTypes).
     ebind (py_index MyTypes i) (\<lambda>ThisType. getattr h' ThisType f))"


text \<open>
  The aggregate capital-to-income ratio:
  \<^verbatim>\<open>
  aLvl_all = np.concatenate([ThisType.aLvlNow for ThisType in MyTypes])
  print('Aggregate capital to income ratio is ' + str(np.mean(aLvl_all)))
  \<close>
  \<open>np.concatenate\<close> rejects an empty sequence and anything that is not an array;
  \<open>np.mean\<close> of an empty array is nan.
\<close>

fun aLvlNow_list :: "heap \<Rightarrow> addr list \<Rightarrow> error + val list" where
  "aLvlNow_list h [] = Inr []"
| "aLvlNow_list h (ThisType # rest) =
     ebind (getattr h ThisType ''aLvlNow'') (\<lambda>v.
     ebind (aLvlNow_list h rest) (\<lambda>vs. Inr (v # vs)))"

fun as_arrays :: "val list \<Rightarrow> error + real list list" where
  "as_arrays [] = Inr []"
| "as_arrays (VArray xs # vs) = ebind (as_arrays vs) (\<lambda>xss. Inr (xs # xss))"
| "as_arrays (_ # vs) = Inl ValueError"

definition np_concatenate :: "val list \<Rightarrow> error + val" where
  "np_concatenate vs =
     (if vs = [] then Inl ValueError
      else ebind (as_arrays vs) (\<lambda>xss. Inr (VArray (concat xss))))"

definition np_mean :: "val \<Rightarrow> error + val" where
  "np_mean v =
     (case v of
        VArray xs \<Rightarrow>
          if xs = [] then Inr VNaN else Inr (VFloat (sum_list xs / real (length xs)))
      | _ \<Rightarrow> Inl TypeError)"

definition aggregate_capital_to_income :: "heap \<Rightarrow> addr list \<Rightarrow> error + val" where
  "aggregate_capital_to_income h MyTypes =
     ebind (aLvlNow_list h MyTypes) (\<lambda>arrays.
     ebind (np_concatenate arrays) (\<lambda>aLvl_all.
     np_mean aLvl_all))"


section \<open>Sessions: a store of objects that refer to one another\<close>

text \<open>
  In a running session an object has an identity, and an attribute holds plain data,
  a reference to another object or a list of references: an agent refers to the
  list of its per-period solutions, and two agents may refer to one and the same
  object. The store maps addresses to objects; every address in use lies below
  \<open>fresh\<close>.
\<close>

type_synonym gobj = "(string \<times> pyval) list"

record gstore =
  cells :: "addr \<rightharpoonup> gobj"
  fresh :: addr

definition targets :: "pyval \<Rightarrow> addr list" where
  "targets v = (case v of Ref b \<Rightarrow> [b] | Refs bs \<Rightarrow> bs | Val x \<Rightarrow> [])"

definition refs_of :: "gobj \<Rightarrow> addr list" where
  "refs_of ob = concat (map (\<lambda>kv. targets (snd kv)) ob)"

text \<open>The objects that can be reached from \<open>a\<close> by following references.\<close>

inductive_set reach :: "gstore \<Rightarrow> addr \<Rightarrow> addr set" for st :: gstore and a :: addr where
  start: "a \<in> reach st a"
| step: "b \<in> reach st a \<Longrightarrow> cells st b = Some ob \<Longrightarrow> c \<in> set (refs_of ob) \<Longrightarrow> c \<in> reach st a"

text \<open>A store without dangling references.\<close>

definition closed :: "gstore \<Rightarrow> bool" where
  "closed st =
     (\<forall>b ob. cells st b = Some ob \<longrightarrow> b < fresh st \<and> (\<forall>c \<in> set (refs_of ob). c < fresh st))"

text \<open>Attribute read \<open>x.f\<close> and attribute assignment \<open>x.f = v\<close> through a reference.\<close>

definition gread :: "gstore \<Rightarrow> addr \<Rightarrow> string \<Rightarrow> error + pyval" where
  "gread st a f =
     (case cells st a of
        None \<Rightarrow> Inl SystemError
      | Some ob \<Rightarrow> (case map_of ob f of None \<Rightarrow> Inl (AttributeError f) | Some v \<Rightarrow> Inr v))"

definition gwrite :: "gstore \<Rightarrow> addr \<Rightarrow> string \<Rightarrow> pyval \<Rightarrow> error + gstore" where
  "gwrite st a f v =
     (case cells st a of
        None \<Rightarrow> Inl SystemError
      | Some ob \<Rightarrow> Inr (st\<lparr>cells := (cells st)(a \<mapsto> AList.update f v ob)\<rparr>))"

text \<open>A new object, at the first unused address.\<close>

definition alloc :: "gstore \<Rightarrow> gobj \<Rightarrow> addr \<times> gstore" where
  "alloc st ob = (fresh st, \<lparr>cells = (cells st)(fresh st \<mapsto> ob), fresh = Suc (fresh st)\<rparr>)"

text \<open>
  \<open>copy.deepcopy(x)\<close>: every object that can be reached from \<open>x\<close> is copied once, to
  an address not in use, and the references inside the copies are redirected to the
  copies. The copy of the object at \<open>b\<close> is placed at \<open>fresh + b\<close>; nothing that
  existed before is written to. \<open>copy.copy(x)\<close>, for comparison, copies the one
  object and leaves its references pointing where they did.
\<close>

definition relocate :: "nat \<Rightarrow> pyval \<Rightarrow> pyval" where
  "relocate n v =
     (case v of Ref b \<Rightarrow> Ref (n + b) | Refs bs \<Rightarrow> Refs (map (\<lambda>b. n + b) bs) | Val x \<Rightarrow> Val x)"

definition relocate_obj :: "nat \<Rightarrow> gobj \<Rightarrow> gobj" where
  "relocate_obj n ob = map (\<lambda>kv. (fst kv, relocate n (snd kv))) ob"

definition copy_reachable :: "gstore \<Rightarrow> addr set \<Rightarrow> gstore" where
  "copy_reachable st R =
     \<lparr>cells = (\<lambda>x. if fresh st \<le> x \<and> x - fresh st \<in> R
                   then map_option (relocate_obj (fresh st)) (cells st (x - fresh st))
                   else cells st x),
      fresh = fresh st + fresh st\<rparr>"

definition gdeepcopy :: "gstore \<Rightarrow> addr \<Rightarrow> error + addr \<times> gstore" where
  "gdeepcopy st a =
     (case cells st a of
        None \<Rightarrow> Inl SystemError
      | Some ob \<Rightarrow> Inr (fresh st + a, copy_reachable st (reach st a)))"

definition gdeepcopy_list :: "gstore \<Rightarrow> addr list \<Rightarrow> error + addr list \<times> gstore" where
  "gdeepcopy_list st as =
     (if list_all (\<lambda>a. cells st a \<noteq> None) as
      then Inr (map (\<lambda>a. fresh st + a) as, copy_reachable st (\<Union>a \<in> set as. reach st a))
      else Inl SystemError)"

definition shallow_copy :: "gstore \<Rightarrow> addr \<Rightarrow> error + addr \<times> gstore" where
  "shallow_copy st a =
     (case cells st a of None \<Rightarrow> Inl SystemError | Some ob \<Rightarrow> Inr (alloc st ob))"


text \<open>
  Attribute read on any value: through a reference, or on an object held by value.
  Subscription \<open>x[i]\<close> on a list held by value or on a list of references; what an
  object of the store does when subscripted is not followed.
\<close>

definition gattr :: "gstore \<Rightarrow> pyval \<Rightarrow> string \<Rightarrow> error + pyval" where
  "gattr st v f =
     (case v of
        Ref a \<Rightarrow> gread st a f
      | Val (VObj kvs) \<Rightarrow>
          (case map_of kvs f of None \<Rightarrow> Inl (AttributeError f) | Some w \<Rightarrow> Inr (Val w))
      | _ \<Rightarrow> Inl (AttributeError f))"

definition gitem :: "pyval \<Rightarrow> int \<Rightarrow> error + pyval" where
  "gitem v i =
     (case v of
        Val x \<Rightarrow> ebind (getitem x i) (\<lambda>w. Inr (Val w))
      | Refs bs \<Rightarrow> ebind (py_index bs i) (\<lambda>b. Inr (Ref b))
      | Ref a \<Rightarrow> Inl (Unmodelled ''__getitem__''))"

section \<open>The toolkit and the libraries, taken as parameters\<close>

text \<open>
  The agent classes, their methods, the helpers \<open>approxUniform\<close>, \<open>getLorenzShares\<close>,
  \<open>plotFuncs\<close>, \<open>log_progress\<close> and the plotting library are imported; none of them is
  defined in the notebooks. A method is run on its receiver and the store; it returns
  the store it leaves behind and the exception it raised, if any. A class builds a new
  object in the store from its keyword arguments. A drawing function draws or raises.
\<close>

type_synonym 'st meth = "addr \<Rightarrow> 'st \<Rightarrow> error option \<times> 'st"

record 'st methods =
  solve :: "'st meth"
  initializeSim :: "'st meth"
  simulate :: "'st meth"

record library =
  importable :: "string \<Rightarrow> bool"
  class_PerfForesight :: "(string \<times> val) list \<Rightarrow> gstore \<Rightarrow> error + addr \<times> gstore"
  class_IndShock :: "(string \<times> val) list \<Rightarrow> gstore \<Rightarrow> error + addr \<times> gstore"
  fn_approxUniform :: "nat \<Rightarrow> real \<Rightarrow> real \<Rightarrow> error + val"
  fn_log_progress :: "addr list \<Rightarrow> addr list"
  fn_getLorenzShares :: "pyval list \<Rightarrow> error + val"
  plotFuncs :: "pyval list \<Rightarrow> error option"
  pyplot :: "string \<Rightarrow> pyval list \<Rightarrow> error option"

text \<open>
  A method whose effect is confined to what its receiver reaches: it writes only to
  objects reachable from the receiver and to objects it creates, and what it writes
  refers only to such objects. (A method has no other way to come by a reference.)
\<close>

definition confined :: "gstore meth \<Rightarrow> bool" where
  "confined m =
     (\<forall>a st. closed st \<longrightarrow>
        fresh st \<le> fresh (snd (m a st)) \<and>
        (\<forall>b. b \<notin> reach st a \<and> b < fresh st \<longrightarrow> cells (snd (m a st)) b = cells st b) \<and>
        (\<forall>b ob. cells (snd (m a st)) b = Some ob \<and> cells st b \<noteq> Some ob \<longrightarrow>
           b < fresh (snd (m a st)) \<and>
           (\<forall>c \<in> set (refs_of ob). c \<in> reach st a \<or> (fresh st \<le> c \<and> c < fresh (snd (m a st))))))"

text \<open>The calls of the three lifecycle methods, as the methods themselves record them.\<close>

datatype call = Solve | InitializeSim | Simulate

type_synonym trace = "(addr \<times> call) list"






section \<open>A notebook session\<close>

text \<open>
  The session state: the names bound at top level, the store and the outputs
  displayed so far. A command returns a value or the exception raised, and the state
  it leaves. The store is a parameter, so that the same command can be run over a
  store that also keeps a record of calls.
\<close>

datatype shown = Plot "pyval list" | Printed "pyval list"

record 'st nb =
  globals :: "string \<rightharpoonup> pyval"
  store :: 'st
  out :: "shown list"

type_synonym ('st, 'a) cmd = "'st nb \<Rightarrow> (error + 'a) \<times> 'st nb"

definition ret :: "'a \<Rightarrow> ('st, 'a) cmd" where
  "ret x s = (Inr x, s)"

definition raise :: "error \<Rightarrow> ('st, 'a) cmd" where
  "raise e s = (Inl e, s)"

definition bindS :: "('st, 'a) cmd \<Rightarrow> ('a \<Rightarrow> ('st, 'b) cmd) \<Rightarrow> ('st, 'b) cmd" where
  "bindS m f s = (case m s of (Inl e, s') \<Rightarrow> (Inl e, s') | (Inr x, s') \<Rightarrow> f x s')"

definition builtins :: "string list" where
  "builtins = [''dir'', ''str'', ''range'']"

text \<open>
  Reading a name at top level: the globals, then the builtins (those the cells use),
  else NameError.
\<close>

definition name :: "string \<Rightarrow> ('st, pyval) cmd" where
  "name n s =
     (case globals s n of
        Some v \<Rightarrow> (Inr v, s)
      | None \<Rightarrow>
          if n \<in> set builtins then (Inr (Val (VExt n)), s) else (Inl (NameError n), s))"

definition assign :: "string \<Rightarrow> pyval \<Rightarrow> ('st, unit) cmd" where
  "assign n v s = (Inr (), s\<lparr>globals := (globals s)(n \<mapsto> v)\<rparr>)"

text \<open>
  \<open>import m as n\<close> and \<open>from m import n1, n2\<close>: the names are bound to the imported
  objects, or the import raises when the module is not there.
\<close>

definition import_as :: "library \<Rightarrow> string \<Rightarrow> string \<Rightarrow> ('st, unit) cmd" where
  "import_as lib m n =
     (if importable lib m then assign n (Val (VExt m)) else raise (ImportError m))"

fun assign_imported :: "string list \<Rightarrow> ('st, unit) cmd" where
  "assign_imported [] = ret ()"
| "assign_imported (n # ns) = bindS (assign n (Val (VExt n))) (\<lambda>_. assign_imported ns)"

definition from_import :: "library \<Rightarrow> string \<Rightarrow> string list \<Rightarrow> ('st, unit) cmd" where
  "from_import lib m ns =
     (if importable lib m then assign_imported ns else raise (ImportError m))"

definition attr :: "pyval \<Rightarrow> string \<Rightarrow> (gstore, pyval) cmd" where
  "attr v f s = (gattr (store s) v f, s)"

definition item :: "pyval \<Rightarrow> int \<Rightarrow> ('st, pyval) cmd" where
  "item v i s = (gitem v i, s)"

definition set_attr :: "pyval \<Rightarrow> string \<Rightarrow> pyval \<Rightarrow> (gstore, unit) cmd" where
  "set_attr v f x s =
     (case v of
        Ref a \<Rightarrow>
          (case gwrite (store s) a f x of
             Inl e \<Rightarrow> (Inl e, s)
           | Inr st' \<Rightarrow> (Inr (), s\<lparr>store := st'\<rparr>))
      | _ \<Rightarrow> (Inl (AttributeError f), s))"

text \<open>
  A call \<open>f(...)\<close> of what a name is bound to. The cells call the functions and classes
  they imported. Plain data and lists are not callable; what any other object would do
  when called is not followed (\<open>Unmodelled\<close>).
\<close>

definition calling :: "string \<Rightarrow> pyval \<Rightarrow> ('st, unit) cmd" where
  "calling f v =
     (case v of
        Val (VExt g) \<Rightarrow> if g = f then ret () else raise (Unmodelled f)
      | Val x \<Rightarrow> raise TypeError
      | Refs bs \<Rightarrow> raise TypeError
      | Ref a \<Rightarrow> raise (Unmodelled f))"

text \<open>
  The attribute \<open>f\<close> of what should be the module \<open>m\<close>, as in \<open>np.array\<close>: the module
  has it; plain data and objects of the store are looked up; what another imported
  object has is not followed.
\<close>

definition member_of :: "string \<Rightarrow> string \<Rightarrow> pyval \<Rightarrow> (gstore, unit) cmd" where
  "member_of m f v =
     (case v of
        Val (VExt g) \<Rightarrow> if g = m then ret () else raise (Unmodelled f)
      | _ \<Rightarrow> bindS (attr v f) (\<lambda>w. raise (Unmodelled f)))"

definition deepcopy_of :: "pyval \<Rightarrow> pyval \<Rightarrow> (gstore, pyval) cmd" where
  "deepcopy_of callee v =
     bindS (calling ''deepcopy'' callee) (\<lambda>_ s.
       case v of
         Ref a \<Rightarrow>
           (case gdeepcopy (store s) a of
              Inl e \<Rightarrow> (Inl e, s)
            | Inr (c, st') \<Rightarrow> (Inr (Ref c), s\<lparr>store := st'\<rparr>))
       | Refs bs \<Rightarrow>
           (case gdeepcopy_list (store s) bs of
              Inl e \<Rightarrow> (Inl e, s)
            | Inr (cs, st') \<Rightarrow> (Inr (Refs cs), s\<lparr>store := st'\<rparr>))
       | Val x \<Rightarrow> (Inr (Val x), s))"

text \<open>\<open>C(**d)\<close> for a class \<open>C\<close> and a dictionary \<open>d\<close> held by value.\<close>

definition construct ::
  "string \<Rightarrow> ((string \<times> val) list \<Rightarrow> gstore \<Rightarrow> error + addr \<times> gstore) \<Rightarrow> pyval \<Rightarrow> pyval \<Rightarrow>
   (gstore, pyval) cmd" where
  "construct cname cls callee d =
     bindS (calling cname callee) (\<lambda>_ s.
       case d of
         Val (VObj kwds) \<Rightarrow>
           (case cls kwds (store s) of
              Inl e \<Rightarrow> (Inl e, s)
            | Inr (a, st') \<Rightarrow> (Inr (Ref a), s\<lparr>store := st'\<rparr>))
       | _ \<Rightarrow> (Inl TypeError, s))"

text \<open>\<open>x.m()\<close> for a lifecycle method \<open>m\<close> of the agent classes.\<close>

definition call_method :: "'st meth \<Rightarrow> string \<Rightarrow> pyval \<Rightarrow> ('st, unit) cmd" where
  "call_method m nm v s =
     (case v of
        Ref a \<Rightarrow>
          (case m a (store s) of
             (None, st') \<Rightarrow> (Inr (), s\<lparr>store := st'\<rparr>)
           | (Some e, st') \<Rightarrow> (Inl e, s\<lparr>store := st'\<rparr>))
      | _ \<Rightarrow> (Inl (AttributeError nm), s))"

text \<open>A drawing call: the figure is displayed, or the call raises.\<close>

definition draw :: "(pyval list \<Rightarrow> error option) \<Rightarrow> pyval list \<Rightarrow> ('st, unit) cmd" where
  "draw f args s =
     (case f args of
        None \<Rightarrow> (Inr (), s\<lparr>out := out s @ [Plot args]\<rparr>)
      | Some e \<Rightarrow> (Inl e, s))"

definition call_plotFuncs :: "library \<Rightarrow> pyval \<Rightarrow> pyval list \<Rightarrow> ('st, unit) cmd" where
  "call_plotFuncs lib callee args =
     bindS (calling ''plotFuncs'' callee) (\<lambda>_. draw (plotFuncs lib) args)"

definition print_out :: "pyval list \<Rightarrow> ('st, unit) cmd" where
  "print_out vs s = (Inr (), s\<lparr>out := out s @ [Printed vs]\<rparr>)"

section \<open>Cells, and what does not parse\<close>

text \<open>
  A cell is compiled as a whole before any of it runs. One way for a cell not to
  compile is kept: its first line of code (after blank lines and comments) begins with
  two names side by side, neither a keyword of Python 2 nor, for the first, a line
  magic of IPython. No statement begins so, and the cell raises SyntaxError and runs
  nothing.
\<close>

definition py_keywords :: "string list" where
  "py_keywords =
     [''and'', ''as'', ''assert'', ''break'', ''class'', ''continue'', ''def'', ''del'',
      ''elif'', ''else'', ''except'', ''exec'', ''finally'', ''for'', ''from'', ''global'',
      ''if'', ''import'', ''in'', ''is'', ''lambda'', ''not'', ''or'', ''pass'', ''print'',
      ''raise'', ''return'', ''try'', ''while'', ''with'', ''yield'']"

definition line_magics :: "string list" where
  "line_magics =
     [''alias'', ''alias_magic'', ''autocall'', ''automagic'', ''autosave'', ''bookmark'',
      ''cat'', ''cd'', ''clear'', ''colors'', ''config'', ''connect_info'', ''cp'', ''debug'',
      ''dhist'', ''dirs'', ''doctest_mode'', ''ed'', ''edit'', ''env'', ''gui'', ''hist'',
      ''history'', ''killbgscripts'', ''ldir'', ''less'', ''lf'', ''lk'', ''ll'', ''load'',
      ''load_ext'', ''loadpy'', ''logoff'', ''logon'', ''logstart'', ''logstate'',
      ''logstop'', ''ls'', ''lsmagic'', ''lx'', ''macro'', ''magic'', ''man'', ''matplotlib'',
      ''mkdir'', ''more'', ''mv'', ''notebook'', ''page'', ''pastebin'', ''pdb'', ''pdef'',
      ''pdoc'', ''pfile'', ''pinfo'', ''pinfo2'', ''popd'', ''pprint'', ''precision'',
      ''profile'', ''prun'', ''psearch'', ''psource'', ''pushd'', ''pwd'', ''pycat'',
      ''pylab'', ''qtconsole'', ''quickref'', ''recall'', ''rehashx'', ''reload_ext'',
      ''rep'', ''rerun'', ''reset'', ''reset_selective'', ''rm'', ''rmdir'', ''run'',
      ''save'', ''sc'', ''set_env'', ''store'', ''sx'', ''system'', ''tb'', ''time'',
      ''timeit'', ''unalias'', ''unload_ext'', ''who'', ''who_ls'', ''whos'', ''xdel'',
      ''xmode'']"

definition name_start :: "char \<Rightarrow> bool" where
  "name_start c = (c \<in> set ''abcdefghijklmnopqrstuvwxyzABCDEFGHIJKLMNOPQRSTUVWXYZ_'')"

definition name_char :: "char \<Rightarrow> bool" where
  "name_char c = (name_start c \<or> c \<in> set ''0123456789'')"

text \<open>The name a text begins with, if it begins with one.\<close>

definition leading_name :: "string \<Rightarrow> string option" where
  "leading_name l =
     (case l of
        [] \<Rightarrow> None
      | c # cs \<Rightarrow> if name_start c then Some (takeWhile name_char l) else None)"

definition strip :: "string \<Rightarrow> string" where
  "strip l = dropWhile (\<lambda>c. c = CHR '' '') l"

definition is_code :: "string \<Rightarrow> bool" where
  "is_code l = (case strip l of [] \<Rightarrow> False | c # cs \<Rightarrow> c \<noteq> CHR ''#'')"

definition two_names :: "string \<Rightarrow> bool" where
  "two_names l =
     (case leading_name (strip l) of
        None \<Rightarrow> False
      | Some w1 \<Rightarrow>
          (let rest = drop (length w1) (strip l) in
           w1 \<notin> set py_keywords \<and> w1 \<notin> set line_magics \<and>
           (case rest of
              [] \<Rightarrow> False
            | c # cs \<Rightarrow>
                c = CHR '' '' \<and>
                (case leading_name (strip rest) of
                   None \<Rightarrow> False
                 | Some w2 \<Rightarrow> w2 \<notin> set py_keywords))))"

definition does_not_parse :: "string list \<Rightarrow> bool" where
  "does_not_parse src = (case filter is_code src of [] \<Rightarrow> False | l # ls \<Rightarrow> two_names l)"

datatype 'st cell = Code "('st, unit) cmd" | Source "string list" "('st, unit) cmd"

definition run_cell :: "'st cell \<Rightarrow> ('st, unit) cmd" where
  "run_cell c s =
     (case c of
        Code m \<Rightarrow> m s
      | Source src m \<Rightarrow> if does_not_parse src then (Inl SyntaxError, s) else m s)"

text \<open>
  Running the cells of a notebook one after the other, each from the state the one
  before left, whether it raised or not. For each cell: how it ended and what it
  displayed.
\<close>

fun run_cells :: "'st cell list \<Rightarrow> 'st nb \<Rightarrow> ((error + unit) \<times> shown list) list \<times> 'st nb" where
  "run_cells [] s = ([], s)"
| "run_cells (c # cs) s =
     (case run_cell c s of
        (r, s') \<Rightarrow>
          (case run_cells cs s' of
             (rs, s'') \<Rightarrow> ((r, drop (length (out s)) (out s')) # rs, s'')))"

definition new_session :: "gstore nb" where
  "new_session = \<lparr>globals = Map.empty, store = \<lparr>cells = Map.empty, fresh = 0\<rparr>, out = []\<rparr>"

section \<open>Cells of the introductory notebook\<close>

text \<open>
  The setup cell:
  \<^verbatim>\<open>
  %matplotlib inline
  import matplotlib.pyplot as plt
  import sys
  import os
  sys.path.insert(0, os.path.abspath('../lib'))
  from util import log_progress
  import numpy as np
  import HARK
  from time import clock
  from copy import deepcopy
  mystr = lambda number : "{:.4f}".format(number)
  from HARK.utilities import plotFuncs
  \<close>
  The line magic selects how figures are shown and binds no name. The change of the
  module search path lies outside the session state; where modules are found is part
  of \<open>importable\<close>.
\<close>

definition cell_setup :: "library \<Rightarrow> (gstore, unit) cmd" where
  "cell_setup lib =
     bindS (import_as lib ''matplotlib.pyplot'' ''plt'') (\<lambda>_.
     bindS (import_as lib ''sys'' ''sys'') (\<lambda>_.
     bindS (import_as lib ''os'' ''os'') (\<lambda>_.
     bindS (name ''sys'') (\<lambda>sys.
     bindS (member_of ''sys'' ''path'' sys) (\<lambda>_.
     bindS (name ''os'') (\<lambda>os.
     bindS (member_of ''os'' ''path'' os) (\<lambda>_.
     bindS (from_import lib ''util'' [''log_progress'']) (\<lambda>_.
     bindS (import_as lib ''numpy'' ''np'') (\<lambda>_.
     bindS (import_as lib ''HARK'' ''HARK'') (\<lambda>_.
     bindS (from_import lib ''time'' [''clock'']) (\<lambda>_.
     bindS (from_import lib ''copy'' [''deepcopy'']) (\<lambda>_.
     bindS (assign ''mystr'' (Val (VExt ''lambda''))) (\<lambda>_.
     from_import lib ''HARK.utilities'' [''plotFuncs''])))))))))))))"

text \<open>\<^verbatim>\<open>from Demos.ConsumptionSaving.ConsIndShockModel import PerfForesightConsumerType\<close>\<close>

definition cell_import_class :: "library \<Rightarrow> (gstore, unit) cmd" where
  "cell_import_class lib =
     from_import lib ''Demos.ConsumptionSaving.ConsIndShockModel'' [''PerfForesightConsumerType'']"

text \<open>\<^verbatim>\<open>PF_dictionary = {...}\<close>, the dictionary held by value.\<close>

definition cell_dictionary :: "(gstore, unit) cmd" where
  "cell_dictionary = assign ''PF_dictionary'' (Val (VObj PF_dictionary))"

text \<open>\<^verbatim>\<open>PFexample = PerfForesightConsumerType(**PF_dictionary)\<close>\<close>

definition cell_construct :: "library \<Rightarrow> (gstore, unit) cmd" where
  "cell_construct lib =
     bindS (name ''PerfForesightConsumerType'') (\<lambda>cls.
     bindS (name ''PF_dictionary'') (\<lambda>d.
     bindS (construct ''PerfForesightConsumerType'' (class_PerfForesight lib) cls d) (\<lambda>a.
     assign ''PFexample'' a)))"

text \<open>The expression \<^verbatim>\<open>x.solution[0].cFunc\<close> for a name \<open>x\<close>.\<close>

definition solution0 :: "string \<Rightarrow> string \<Rightarrow> (gstore, pyval) cmd" where
  "solution0 x f =
     bindS (name x) (\<lambda>agent.
     bindS (attr agent ''solution'') (\<lambda>sol.
     bindS (item sol 0) (\<lambda>s0.
     attr s0 f)))"

definition solution0_cFunc :: "string \<Rightarrow> (gstore, pyval) cmd" where
  "solution0_cFunc x = solution0 x ''cFunc''"

text \<open>
  \<^verbatim>\<open>PFexample.solve()
  plotFuncs(PFexample.solution[0].cFunc,0.,10.)\<close>
\<close>

definition cell_solve_plot :: "library \<Rightarrow> gstore methods \<Rightarrow> (gstore, unit) cmd" where
  "cell_solve_plot lib ms =
     bindS (name ''PFexample'') (\<lambda>pf.
     bindS (call_method (solve ms) ''solve'' pf) (\<lambda>_.
     bindS (name ''plotFuncs'') (\<lambda>pl.
     bindS (solution0_cFunc ''PFexample'') (\<lambda>cf.
     call_plotFuncs lib pl [cf, Val (VFloat 0), Val (VFloat 10)]))))"

text \<open>
  The two \<open>print\<close> lines, of \<^verbatim>\<open>str(PFexample.solution[0].hNrm)\<close> and of
  \<^verbatim>\<open>str(PFexample.solution[0].mNrmMin)\<close> between fixed texts.
\<close>

definition cell_print_bounds :: "(gstore, unit) cmd" where
  "cell_print_bounds =
     bindS (name ''str'') (\<lambda>_.
     bindS (solution0 ''PFexample'' ''hNrm'') (\<lambda>h.
     bindS (print_out [Val (VStr ''human wealth''), h]) (\<lambda>_.
     bindS (name ''str'') (\<lambda>_.
     bindS (solution0 ''PFexample'' ''mNrmMin'') (\<lambda>m.
     print_out [Val (VStr ''consumption function is defined down to''), m])))))"

text \<open>
  \<^verbatim>\<open>plotFuncs(PFexample.solution[0].cFunc,bottom,top)\<close>:
  the callee and the arguments are evaluated left to right, then the call is made.
\<close>

definition cell_plot_bottom_top :: "library \<Rightarrow> (gstore, unit) cmd" where
  "cell_plot_bottom_top lib =
     bindS (name ''plotFuncs'') (\<lambda>pl.
     bindS (solution0_cFunc ''PFexample'') (\<lambda>cf.
     bindS (name ''bottom'') (\<lambda>bottom.
     bindS (name ''top'') (\<lambda>top.
     call_plotFuncs lib pl [cf, bottom, top]))))"

text \<open>\<^verbatim>\<open>NewExample = deepcopy(PFexample)\<close>\<close>

definition cell_deepcopy :: "(gstore, unit) cmd" where
  "cell_deepcopy =
     bindS (name ''deepcopy'') (\<lambda>dc.
     bindS (name ''PFexample'') (\<lambda>pf.
     bindS (deepcopy_of dc pf) (\<lambda>c.
     assign ''NewExample'' c)))"

text \<open>
  \<^verbatim>\<open>NewExample.DiscFac = 0.90
  NewExample.solve()
  plotFuncs([PFexample.solution[0].cFunc,NewExample.solution[0].cFunc],0.,10.)\<close>
\<close>

definition plot_both :: "library \<Rightarrow> (gstore, unit) cmd" where
  "plot_both lib =
     bindS (name ''plotFuncs'') (\<lambda>pl.
     bindS (solution0_cFunc ''PFexample'') (\<lambda>cf.
     bindS (solution0_cFunc ''NewExample'') (\<lambda>cf'.
     call_plotFuncs lib pl [cf, cf', Val (VFloat 0), Val (VFloat 10)])))"

definition cell_less_patient :: "library \<Rightarrow> gstore methods \<Rightarrow> (gstore, unit) cmd" where
  "cell_less_patient lib ms =
     bindS (name ''NewExample'') (\<lambda>n.
     bindS (set_attr n ''DiscFac'' (Val (VFloat 0.90))) (\<lambda>_.
     bindS (name ''NewExample'') (\<lambda>n.
     bindS (call_method (solve ms) ''solve'' n) (\<lambda>_.
     plot_both lib))))"

text \<open>
  The exercise cell, as its text stands in the notebook, with what its last line would
  run if the cell compiled.
\<close>

definition cell_revert_source :: "string list" where
  "cell_revert_source =
     [''# Revert NewExample's discount factor and make his future income miniscule'',
      ''your lines here!'',
      '''',
      ''# Compare the old and new consumption functions'',
      ''plotFuncs([PFexample.solution[0].cFunc,NewExample.solution[0].cFunc],0.,10.)'']"

definition cell_revert :: "library \<Rightarrow> gstore cell" where
  "cell_revert lib = Source cell_revert_source (plot_both lib)"

text \<open>The code cells of the notebook, in order; the last one is empty.\<close>

definition intro_notebook :: "library \<Rightarrow> gstore methods \<Rightarrow> gstore cell list" where
  "intro_notebook lib ms =
     [Code (cell_setup lib),
      Code (cell_import_class lib),
      Code cell_dictionary,
      Code (cell_construct lib),
      Code (cell_solve_plot lib ms),
      Code cell_print_bounds,
      Code (cell_plot_bottom_top lib),
      Code cell_deepcopy,
      Code (cell_less_patient lib ms),
      cell_revert lib,
      Code (ret ())]"

section \<open>Cells of the impatient-households notebook\<close>

text \<open>
  The setup cell imports \<open>matplotlib.pyplot\<close> as \<open>plt\<close>, \<open>sys\<close>, \<open>os\<close>, \<open>log_progress\<close>,
  \<open>numpy\<close> as \<open>np\<close>, \<open>deepcopy\<close>, \<open>HARK\<close> and \<open>plotFuncs\<close>, in this order.
\<close>

definition imp_setup :: "library \<Rightarrow> (gstore, unit) cmd" where
  "imp_setup lib =
     bindS (import_as lib ''matplotlib.pyplot'' ''plt'') (\<lambda>_.
     bindS (import_as lib ''sys'' ''sys'') (\<lambda>_.
     bindS (import_as lib ''os'' ''os'') (\<lambda>_.
     bindS (name ''sys'') (\<lambda>sys.
     bindS (member_of ''sys'' ''path'' sys) (\<lambda>_.
     bindS (name ''os'') (\<lambda>os.
     bindS (member_of ''os'' ''path'' os) (\<lambda>_.
     bindS (from_import lib ''util'' [''log_progress'']) (\<lambda>_.
     bindS (import_as lib ''numpy'' ''np'') (\<lambda>_.
     bindS (from_import lib ''copy'' [''deepcopy'']) (\<lambda>_.
     bindS (import_as lib ''HARK'' ''HARK'') (\<lambda>_.
     from_import lib ''HARK.utilities'' [''plotFuncs''])))))))))))"

text \<open>
  The import of \<open>IndShockConsumerType\<close> and the dictionary of calibrated parameters,
  held by value; the one name its entries read is \<open>np\<close>, for \<open>np.log\<close>.
\<close>

definition imp_parameters :: "library \<Rightarrow> (gstore, unit) cmd" where
  "imp_parameters lib =
     bindS (from_import lib ''Demos.ConsumptionSaving.ConsIndShockModel''
              [''IndShockConsumerType'']) (\<lambda>_.
     bindS (name ''np'') (\<lambda>np.
     bindS (member_of ''numpy'' ''log'' np) (\<lambda>_.
     assign ''cstwMPC_calibrated_parameters'' (Val (VObj cstwMPC_calibrated_parameters)))))"

text \<open>
  The cell that constructs the types, run in the session. \<open>range(n)\<close> for an integer
  \<open>n\<close>; the body of the loop for one \<open>nn\<close>; the loop; the cell.
\<close>

definition py_range :: "pyval \<Rightarrow> pyval \<Rightarrow> ('st, nat list) cmd" where
  "py_range callee n =
     bindS (calling ''range'' callee) (\<lambda>_.
       case n of Val (VInt k) \<Rightarrow> ret [0..<nat k] | _ \<Rightarrow> raise TypeError)"

definition append_to :: "pyval \<Rightarrow> pyval \<Rightarrow> ('st, pyval) cmd" where
  "append_to l x =
     (case l of
        Refs bs \<Rightarrow> (case x of Ref b \<Rightarrow> ret (Refs (bs @ [b])) | _ \<Rightarrow> raise (Unmodelled ''append''))
      | _ \<Rightarrow> raise (Unmodelled ''append''))"

definition new_type :: "nat \<Rightarrow> (gstore, unit) cmd" where
  "new_type nn =
     bindS (assign ''nn'' (Val (VInt (int nn)))) (\<lambda>_.
     bindS (name ''deepcopy'') (\<lambda>dc.
     bindS (name ''BaselineType'') (\<lambda>base.
     bindS (deepcopy_of dc base) (\<lambda>c.
     bindS (assign ''NewType'' c) (\<lambda>_.
     bindS (name ''NewType'') (\<lambda>nt.
     bindS (name ''DiscFac_dstn'') (\<lambda>dstn.
     bindS (name ''nn'') (\<lambda>_.
     bindS (item dstn (int nn)) (\<lambda>d.
     bindS (set_attr nt ''DiscFac'' d) (\<lambda>_.
     bindS (name ''NewType'') (\<lambda>nt.
     bindS (name ''nn'') (\<lambda>n.
     bindS (set_attr nt ''seed'' n) (\<lambda>_.
     bindS (name ''MyTypes'') (\<lambda>mt.
     bindS (name ''NewType'') (\<lambda>nt.
     bindS (append_to mt nt) (\<lambda>mt'.
     assign ''MyTypes'' mt'))))))))))))))))"

fun types_loop :: "nat list \<Rightarrow> (gstore, unit) cmd" where
  "types_loop [] = ret ()"
| "types_loop (nn # rest) = bindS (new_type nn) (\<lambda>_. types_loop rest)"

definition approx_uniform :: "library \<Rightarrow> pyval \<Rightarrow> pyval \<Rightarrow> pyval \<Rightarrow> pyval \<Rightarrow> ('st, pyval) cmd" where
  "approx_uniform lib callee n m d =
     bindS (calling ''approxUniform'' callee) (\<lambda>_.
       case (n, m, d) of
         (Val (VInt k), Val (VFloat mean), Val (VFloat spread)) \<Rightarrow>
           (case fn_approxUniform lib (nat k) (mean - spread) (mean + spread) of
              Inl e \<Rightarrow> raise e
            | Inr r \<Rightarrow> ret (Val r))
       | _ \<Rightarrow> raise TypeError)"

definition cell_construct_types :: "library \<Rightarrow> (gstore, unit) cmd" where
  "cell_construct_types lib =
     bindS (from_import lib ''HARK.utilities'' [''approxUniform'']) (\<lambda>_.
     bindS (name ''IndShockConsumerType'') (\<lambda>cls.
     bindS (name ''cstwMPC_calibrated_parameters'') (\<lambda>d.
     bindS (construct ''IndShockConsumerType'' (class_IndShock lib) cls d) (\<lambda>base.
     bindS (assign ''BaselineType'' base) (\<lambda>_.
     bindS (assign ''num_types'' (Val (VInt (int num_types)))) (\<lambda>_.
     bindS (assign ''DiscFac_mean'' (Val (VFloat DiscFac_mean))) (\<lambda>_.
     bindS (assign ''DiscFac_spread'' (Val (VFloat DiscFac_spread))) (\<lambda>_.
     bindS (name ''approxUniform'') (\<lambda>au.
     bindS (name ''num_types'') (\<lambda>n.
     bindS (name ''DiscFac_mean'') (\<lambda>m1.
     bindS (name ''DiscFac_spread'') (\<lambda>d1.
     bindS (name ''DiscFac_mean'') (\<lambda>m2.
     bindS (name ''DiscFac_spread'') (\<lambda>d2.
     bindS (approx_uniform lib au n m1 d1) (\<lambda>r.
     bindS (item r 1) (\<lambda>dstn.
     bindS (assign ''DiscFac_dstn'' dstn) (\<lambda>_.
     bindS (assign ''MyTypes'' (Refs [])) (\<lambda>_.
     bindS (name ''range'') (\<lambda>rg.
     bindS (name ''num_types'') (\<lambda>n.
     bindS (py_range rg n) (\<lambda>nns.
     types_loop nns)))))))))))))))))))))"

text \<open>\<^verbatim>\<open>dir(This)\<close>\<close>

definition cell_dir_This :: "('st, unit) cmd" where
  "cell_dir_This =
     bindS (name ''dir'') (\<lambda>_.
     bindS (name ''This'') (\<lambda>this.
     print_out [this]))"

text \<open>
  The solve-and-simulate loop:
  \<^verbatim>\<open>
  for ThisType in log_progress(MyTypes, every=1):
      ThisType.solve()
      ThisType.initializeSim()
      ThisType.simulate()
  \<close>
  \<open>log_progress\<close> yields the instances to go through; it is defined outside the
  notebook and taken as a parameter.
\<close>

fun solve_loop :: "'st methods \<Rightarrow> addr list \<Rightarrow> ('st, unit) cmd" where
  "solve_loop ms [] = ret ()"
| "solve_loop ms (a # rest) =
     bindS (assign ''ThisType'' (Ref a)) (\<lambda>_.
     bindS (name ''ThisType'') (\<lambda>t.
     bindS (call_method (solve ms) ''solve'' t) (\<lambda>_.
     bindS (name ''ThisType'') (\<lambda>t.
     bindS (call_method (initializeSim ms) ''initializeSim'' t) (\<lambda>_.
     bindS (name ''ThisType'') (\<lambda>t.
     bindS (call_method (simulate ms) ''simulate'' t) (\<lambda>_.
     solve_loop ms rest)))))))"

definition progress :: "library \<Rightarrow> pyval \<Rightarrow> pyval \<Rightarrow> ('st, addr list) cmd" where
  "progress lib callee l =
     bindS (calling ''log_progress'' callee) (\<lambda>_.
       case l of
         Refs bs \<Rightarrow> ret (fn_log_progress lib bs)
       | _ \<Rightarrow> raise (Unmodelled ''log_progress''))"

definition cell_solve_and_simulate :: "library \<Rightarrow> 'st methods \<Rightarrow> ('st, unit) cmd" where
  "cell_solve_and_simulate lib ms =
     bindS (name ''log_progress'') (\<lambda>lp.
     bindS (name ''MyTypes'') (\<lambda>mt.
     bindS (progress lib lp mt) (\<lambda>ts.
     solve_loop ms ts)))"


definition forget :: "('st \<times> trace) nb \<Rightarrow> 'st nb" where
  "forget s = \<lparr>globals = globals s, store = fst (store s), out = out s\<rparr>"

text \<open>
  The aggregate, run in the session. In Python 2 the variable of a list comprehension
  is a variable of the enclosing scope, so \<open>ThisType\<close> is bound at top level.
  \<^verbatim>\<open>
  aLvl_all = np.concatenate([ThisType.aLvlNow for ThisType in MyTypes])
  print('Aggregate capital to income ratio is ' + str(np.mean(aLvl_all)))
  \<close>
\<close>

fun aLvlNow_of :: "addr list \<Rightarrow> (gstore, val list) cmd" where
  "aLvlNow_of [] = ret []"
| "aLvlNow_of (a # rest) =
     bindS (assign ''ThisType'' (Ref a)) (\<lambda>_.
     bindS (name ''ThisType'') (\<lambda>t.
     bindS (attr t ''aLvlNow'') (\<lambda>v.
     bindS (aLvlNow_of rest) (\<lambda>vs.
       case v of Val x \<Rightarrow> ret (x # vs) | _ \<Rightarrow> raise ValueError))))"

definition of_result :: "error + 'a \<Rightarrow> ('st, 'a) cmd" where
  "of_result r = (case r of Inl e \<Rightarrow> raise e | Inr x \<Rightarrow> ret x)"

definition pooled_aLvlNow :: "(gstore, pyval) cmd" where
  "pooled_aLvlNow =
     bindS (name ''np'') (\<lambda>np.
     bindS (member_of ''numpy'' ''concatenate'' np) (\<lambda>_.
     bindS (name ''MyTypes'') (\<lambda>mt.
       case mt of
         Refs bs \<Rightarrow>
           bindS (aLvlNow_of bs) (\<lambda>arrays.
           bindS (of_result (np_concatenate arrays)) (\<lambda>r. ret (Val r)))
       | _ \<Rightarrow> raise (Unmodelled ''for''))))"

definition cell_aggregate :: "(gstore, unit) cmd" where
  "cell_aggregate =
     bindS pooled_aLvlNow (\<lambda>all.
     bindS (assign ''aLvl_all'' all) (\<lambda>_.
     bindS (name ''str'') (\<lambda>_.
     bindS (name ''np'') (\<lambda>np.
     bindS (member_of ''numpy'' ''mean'' np) (\<lambda>_.
     bindS (name ''aLvl_all'') (\<lambda>x.
       case x of
         Val v \<Rightarrow>
           bindS (of_result (np_mean v)) (\<lambda>m.
           print_out [Val (VStr ''Aggregate capital to income ratio is ''), Val m])
       | _ \<Rightarrow> raise TypeError))))))"

text \<open>
  \<open>calcLorenzDistance\<close> as the notebook leaves it, an exercise to be filled in:
  \<^verbatim>\<open>
  def calcLorenzDistance(SomeTypes):
      lorenz_SCF = np.array([-0.00183091,  0.0104425 ,  0.0552605 ,  0.1751907 ])
      return lorenz_distance
  \<close>
  A name the function does not assign is read from the globals. The body is run in a
  frame of local variables that starts with the argument; the frame is returned with
  the result, to see what the body has bound when it leaves.
\<close>

definition lorenz_SCF :: "real list" where
  "lorenz_SCF = [- 0.00183091, 0.0104425, 0.0552605, 0.1751907]"

type_synonym frame = "string \<rightharpoonup> pyval"

definition local_name :: "frame \<Rightarrow> string \<Rightarrow> ('st, pyval) cmd" where
  "local_name locals n = (case locals n of Some v \<Rightarrow> ret v | None \<Rightarrow> name n)"

text \<open>\<^verbatim>\<open>np.array(xs)\<close> for a list of floats.\<close>

definition np_array :: "pyval \<Rightarrow> real list \<Rightarrow> (gstore, pyval) cmd" where
  "np_array np xs = bindS (member_of ''numpy'' ''array'' np) (\<lambda>_. ret (Val (VArray xs)))"

definition calcLorenzDistance_frame ::
  "pyval \<Rightarrow> gstore nb \<Rightarrow> (error + pyval) \<times> frame \<times> gstore nb" where
  "calcLorenzDistance_frame SomeTypes s =
     (case bindS (local_name [''SomeTypes'' \<mapsto> SomeTypes] ''np'') (\<lambda>np. np_array np lorenz_SCF) s of
        (Inl e, s') \<Rightarrow> (Inl e, [''SomeTypes'' \<mapsto> SomeTypes], s')
      | (Inr arr, s') \<Rightarrow>
          (case local_name [''SomeTypes'' \<mapsto> SomeTypes, ''lorenz_SCF'' \<mapsto> arr]
                  ''lorenz_distance'' s' of
             (r, s'') \<Rightarrow> (r, [''SomeTypes'' \<mapsto> SomeTypes, ''lorenz_SCF'' \<mapsto> arr], s'')))"

definition calcLorenzDistance :: "pyval \<Rightarrow> (gstore, pyval) cmd" where
  "calcLorenzDistance SomeTypes s =
     (case calcLorenzDistance_frame SomeTypes s of (r, locals, s') \<Rightarrow> (r, s'))"

text \<open>
  The cell that defines and tests it:
  \<^verbatim>\<open>
  from HARK.utilities import getLorenzShares, getPercentiles
  def calcLorenzDistance(SomeTypes): ...
  print('The baseline Lorenz distance is ' + str(calcLorenzDistance(MyTypes)))
  \<close>
\<close>

definition cell_lorenz_test :: "library \<Rightarrow> (gstore, unit) cmd" where
  "cell_lorenz_test lib =
     bindS (from_import lib ''HARK.utilities'' [''getLorenzShares'', ''getPercentiles'']) (\<lambda>_.
     bindS (assign ''calcLorenzDistance'' (Val (VExt ''calcLorenzDistance''))) (\<lambda>_.
     bindS (name ''str'') (\<lambda>_.
     bindS (name ''calcLorenzDistance'') (\<lambda>f.
     bindS (name ''MyTypes'') (\<lambda>ts.
     bindS (calling ''calcLorenzDistance'' f) (\<lambda>_.
     bindS (calcLorenzDistance ts) (\<lambda>d.
     print_out [Val (VStr ''The baseline Lorenz distance is ''), d])))))))"

text \<open>
  The last cell with code draws the two Lorenz curves:
  \<^verbatim>\<open>
  from Demos.cstwMPC.SetupParamsCSTW import SCF_wealth, SCF_weights
  pctiles = np.linspace(0.001,0.999,200)
  sim_wealth = np.concatenate([ThisType.aLvlNow for ThisType in MyTypes])
  SCF_Lorenz_points = getLorenzShares(SCF_wealth,weights=SCF_weights,percentiles=pctiles)
  sim_Lorenz_points = getLorenzShares(sim_wealth,percentiles=pctiles)
  plt.plot(pctiles,SCF_Lorenz_points,'--k')
  plt.plot(pctiles,sim_Lorenz_points,'-b')
  plt.xlabel('Percentile of net worth')
  plt.ylabel('Cumulative share of wealth')
  plt.show()
  \<close>
  The figure is displayed by \<open>plt.show()\<close>.
\<close>

definition np_linspace :: "pyval \<Rightarrow> real \<Rightarrow> real \<Rightarrow> nat \<Rightarrow> (gstore, pyval) cmd" where
  "np_linspace np lo hi n =
     bindS (member_of ''numpy'' ''linspace'' np) (\<lambda>_.
     ret (Val (VArray (map (\<lambda>i. lo + real i * ((hi - lo) / real (n - 1))) [0..<n]))))"

definition lorenz_shares :: "library \<Rightarrow> pyval \<Rightarrow> pyval list \<Rightarrow> ('st, pyval) cmd" where
  "lorenz_shares lib callee args =
     bindS (calling ''getLorenzShares'' callee) (\<lambda>_.
     bindS (of_result (fn_getLorenzShares lib args)) (\<lambda>r. ret (Val r)))"

definition plt_call :: "library \<Rightarrow> string \<Rightarrow> pyval list \<Rightarrow> (gstore, unit) cmd" where
  "plt_call lib f args =
     bindS (name ''plt'') (\<lambda>plt.
     bindS (member_of ''matplotlib.pyplot'' f plt) (\<lambda>_.
       case pyplot lib f args of None \<Rightarrow> ret () | Some e \<Rightarrow> raise e))"

definition plt_show :: "library \<Rightarrow> pyval list \<Rightarrow> (gstore, unit) cmd" where
  "plt_show lib curves =
     bindS (name ''plt'') (\<lambda>plt.
     bindS (member_of ''matplotlib.pyplot'' ''show'' plt) (\<lambda>_.
     draw (pyplot lib ''show'') curves))"

definition cell_lorenz_curves :: "library \<Rightarrow> (gstore, unit) cmd" where
  "cell_lorenz_curves lib =
     bindS (from_import lib ''Demos.cstwMPC.SetupParamsCSTW'' [''SCF_wealth'', ''SCF_weights'']) (\<lambda>_.
     bindS (name ''np'') (\<lambda>np.
     bindS (np_linspace np 0.001 0.999 200) (\<lambda>p.
     bindS (assign ''pctiles'' p) (\<lambda>_.
     bindS pooled_aLvlNow (\<lambda>w.
     bindS (assign ''sim_wealth'' w) (\<lambda>_.
     bindS (name ''getLorenzShares'') (\<lambda>g.
     bindS (name ''SCF_wealth'') (\<lambda>sw.
     bindS (name ''SCF_weights'') (\<lambda>ww.
     bindS (name ''pctiles'') (\<lambda>p.
     bindS (lorenz_shares lib g [sw, ww, p]) (\<lambda>l.
     bindS (assign ''SCF_Lorenz_points'' l) (\<lambda>_.
     bindS (name ''getLorenzShares'') (\<lambda>g.
     bindS (name ''sim_wealth'') (\<lambda>w.
     bindS (name ''pctiles'') (\<lambda>p.
     bindS (lorenz_shares lib g [w, p]) (\<lambda>l'.
     bindS (assign ''sim_Lorenz_points'' l') (\<lambda>_.
     bindS (name ''pctiles'') (\<lambda>p.
     bindS (name ''SCF_Lorenz_points'') (\<lambda>l.
     bindS (plt_call lib ''plot'' [p, l, Val (VStr ''--k'')]) (\<lambda>_.
     bindS (name ''pctiles'') (\<lambda>p.
     bindS (name ''sim_Lorenz_points'') (\<lambda>l'.
     bindS (plt_call lib ''plot'' [p, l', Val (VStr ''-b'')]) (\<lambda>_.
     bindS (plt_call lib ''xlabel'' [Val (VStr ''Percentile of net worth'')]) (\<lambda>_.
     bindS (plt_call lib ''ylabel'' [Val (VStr ''Cumulative share of wealth'')]) (\<lambda>_.
     plt_show lib [l, l'])))))))))))))))))))))))))"

text \<open>
  The code cells of the notebook, in order. Three of them hold comments only, the last
  one is empty.
\<close>

definition impatient_notebook :: "library \<Rightarrow> gstore methods \<Rightarrow> gstore cell list" where
  "impatient_notebook lib ms =
     [Code (imp_setup lib),
      Code (imp_parameters lib),
      Code (cell_construct_types lib),
      Code cell_dir_This,
      Code (cell_solve_and_simulate lib ms),
      Code cell_aggregate,
      Code (cell_lorenz_test lib),
      Code (ret ()),
      Code (ret ()),
      Code (ret ()),
      Code (cell_lorenz_curves lib),
      Code (ret ())]"

section \<open>What a deep copy keeps apart\<close>

text \<open>
  The store \<open>st\<close> has grown out of \<open>st0\<close> by copies and by writes to the copies: it is
  closed, every object that existed at address below \<open>n0\<close> is as it was in \<open>st0\<close>, and
  the objects from \<open>n0\<close> on refer to objects from \<open>n0\<close> on only.
\<close>

definition apart :: "nat \<Rightarrow> gstore \<Rightarrow> gstore \<Rightarrow> bool" where
  "apart n0 st0 st =
     (closed st \<and> n0 \<le> fresh st \<and>
      (\<forall>b. b < n0 \<longrightarrow> cells st b = cells st0 b) \<and>
      (\<forall>b ob. n0 \<le> b \<and> cells st b = Some ob \<longrightarrow> (\<forall>c \<in> set (refs_of ob). n0 \<le> c)))"

section \<open>A small toolkit and two small sessions, for concrete runs\<close>






definition example_class :: "(string \<times> val) list \<Rightarrow> error + obj" where
  "example_class kwds = Inr ((map_of kwds)(''seed'' \<mapsto> VInt 0))"

definition example_approxUniform :: "nat \<Rightarrow> real \<Rightarrow> real \<Rightarrow> error + val" where
  "example_approxUniform N lo hi =
     Inr (VList [VArray (replicate N (1 / real N)),
                 VArray (map (\<lambda>i. lo + (hi - lo) * (2 * real i + 1) / (2 * real N)) [0..<N])])"

definition example_types :: "error + heap \<times> addr \<times> addr list" where
  "example_types = construct_types example_class example_approxUniform []"


definition impatient_store :: heap where
  "impatient_store =
     [map_of cstwMPC_calibrated_parameters,
      (map_of cstwMPC_calibrated_parameters)(''aLvlNow'' \<mapsto> VArray [1, 2]),
      (map_of cstwMPC_calibrated_parameters)(''aLvlNow'' \<mapsto> VArray [6])]"






section \<open>Parameter dictionaries: what their values are\<close>

lemma PF_dictionary_numeric: "non_numeric_entries PF_dictionary = []"
  by (simp add: non_numeric_entries_def PF_dictionary_def)

lemma cstwMPC_non_numeric:
  "non_numeric_entries cstwMPC_calibrated_parameters =
     [(''CubicBool'', VBool False), (''vFuncBool'', VBool False),
      (''UnempPrbRet'', VNone), (''IncUnempRet'', VNone), (''aXtraExtra'', VList [VNone])]"
  by (simp add: non_numeric_entries_def cstwMPC_calibrated_parameters_def)

text \<open>
  C4, as stated: every value of the two parameter dictionaries is a numeric scalar or a
  sequence of numeric values. It fails on \<open>cstwMPC_calibrated_parameters\<close>, which
  holds \<open>None\<close>, \<open>False\<close> and \<open>[None]\<close>.
\<close>

theorem parameters_all_numeric_counterexample:
  "\<not> list_all (\<lambda>kv. numeric_value (snd kv)) (PF_dictionary @ cstwMPC_calibrated_parameters)"
  by (simp add: PF_dictionary_def cstwMPC_calibrated_parameters_def)

text \<open>
  C4 (amended): every value of \<open>PF_dictionary\<close> is a numeric scalar or a sequence of
  numeric values; in \<open>cstwMPC_calibrated_parameters\<close> the values that are not are
  exactly those of \<open>CubicBool\<close> and \<open>vFuncBool\<close> (\<open>False\<close>), \<open>UnempPrbRet\<close> and
  \<open>IncUnempRet\<close> (\<open>None\<close>) and \<open>aXtraExtra\<close> (\<open>[None]\<close>).
\<close>

theorem parameter_values:
  "non_numeric_entries PF_dictionary = [] \<and>
   non_numeric_entries cstwMPC_calibrated_parameters =
     [(''CubicBool'', VBool False), (''vFuncBool'', VBool False),
      (''UnempPrbRet'', VNone), (''IncUnempRet'', VNone), (''aXtraExtra'', VList [VNone])]"
  by (simp add: PF_dictionary_numeric cstwMPC_non_numeric)


section \<open>The Lorenz distance exercise\<close>


lemma member_of_raises_or_returns:
  "member_of m f v s = (Inr (), s) \<or> (\<exists>e. member_of m f v s = (Inl e, s))"
  by (auto simp: member_of_def ret_def raise_def bindS_def attr_def
           split: pyval.splits val.splits sum.splits)





section \<open>The aggregate capital-to-income ratio\<close>

lemma aLvlNow_list_arrays:
  "map (\<lambda>a. getattr h a ''aLvlNow'') MyTypes = map (\<lambda>xs. Inr (VArray xs)) xss \<Longrightarrow>
   aLvlNow_list h MyTypes = Inr (map VArray xss)"
proof (induction MyTypes arbitrary: xss)
  case Nil
  then show ?case by simp
next
  case (Cons a as)
  then obtain xs rest where xss: "xss = xs # rest"
    by (cases xss) auto
  with Cons.prems have hd: "getattr h a ''aLvlNow'' = Inr (VArray xs)"
    and tl: "map (\<lambda>a. getattr h a ''aLvlNow'') as = map (\<lambda>xs. Inr (VArray xs)) rest"
    by simp_all
  from Cons.IH [OF tl] hd xss show ?case
    by (simp add: ebind_def)
qed

lemma as_arrays_arrays: "as_arrays (map VArray xss) = Inr xss"
  by (induction xss) (simp_all add: ebind_def)

text \<open>
  C5: when every type in \<open>MyTypes\<close> holds an array \<open>aLvlNow\<close>, the ratio reported is
  the arithmetic mean of the concatenation of these arrays in list order (nan when no
  agent was simulated), and that mean is the sum of all asset levels divided by the
  total number of agents. Floats are read as reals.
\<close>

theorem aggregate_is_mean_of_concatenation:
  assumes "MyTypes \<noteq> []"
      and "map (\<lambda>a. getattr h a ''aLvlNow'') MyTypes = map (\<lambda>xs. Inr (VArray xs)) xss"
  shows "aggregate_capital_to_income h MyTypes =
           Inr (if concat xss = [] then VNaN
                else VFloat (sum_list (concat xss) / real (length (concat xss)))) \<and>
         sum_list (concat xss) / real (length (concat xss)) =
           sum_list (map sum_list xss) / real (sum_list (map length xss))"
proof -
  from assms have ne: "map VArray xss \<noteq> []"
    by (cases MyTypes; cases xss) auto
  have "aLvlNow_list h MyTypes = Inr (map VArray xss)"
    using assms(2) by (rule aLvlNow_list_arrays)
  with ne have "aggregate_capital_to_income h MyTypes =
           Inr (if concat xss = [] then VNaN
                else VFloat (sum_list (concat xss) / real (length (concat xss))))"
    by (simp add: aggregate_capital_to_income_def np_concatenate_def np_mean_def
          as_arrays_arrays ebind_def)
  moreover have "sum_list (concat xss) = sum_list (map sum_list xss)"
    by (induction xss) simp_all
  moreover have "length (concat xss) = sum_list (map length xss)"
    by (simp add: length_concat)
  ultimately show ?thesis by simp
qed

theorem aggregate_is_mean_of_concatenation_witness:
  "aggregate_capital_to_income impatient_store [1, 2] = Inr (VFloat 3)"
proof -
  have m: "map (\<lambda>a. getattr impatient_store a ''aLvlNow'') [1, 2] =
           map (\<lambda>xs. Inr (VArray xs)) [[1, 2], [6]]"
    by (simp add: getattr_def impatient_store_def)
  have n: "[1::nat, 2] \<noteq> []" by simp
  show ?thesis
    using aggregate_is_mean_of_concatenation [OF n m] by simp
qed


section \<open>The solve-and-simulate loop\<close>










lemma forget_store: "forget (s\<lparr>store := (h, tr)\<rparr>) = (forget s)\<lparr>store := h\<rparr>"
  by (simp add: forget_def)

lemma forget_globals: "forget (s\<lparr>globals := g\<rparr>) = (forget s)\<lparr>globals := g\<rparr>"
  by (simp add: forget_def)











section \<open>The construction loop\<close>

lemma make_types_step:
  assumes "B < length h"
  shows "make_types B D (nn # rest) (h, ts) =
           ebind (getitem D (int nn)) (\<lambda>d.
             make_types B D rest
               (h @ [(h ! B)(''DiscFac'' \<mapsto> d, ''seed'' \<mapsto> VInt (int nn))], ts @ [length h]))"
  using assms
  by (cases "getitem D (int nn)") (simp_all add: deepcopy_def setattr_def ebind_def nth_append)

lemma make_types_eq:
  assumes "B < length h"
      and "map (\<lambda>n. getitem D (int n)) ns = map Inr ds"
  shows "make_types B D ns (h, ts) =
           Inr (h @ map (\<lambda>(n, d). (h ! B)(''DiscFac'' \<mapsto> d, ''seed'' \<mapsto> VInt (int n))) (zip ns ds),
                ts @ [length h ..< length h + length ns])"
  using assms
proof (induction ns arbitrary: h ts ds)
  case Nil
  then show ?case by simp
next
  case (Cons n ns)
  then obtain d ds' where ds: "ds = d # ds'"
    by (cases ds) auto
  with Cons.prems have d: "getitem D (int n) = Inr d"
    and rest: "map (\<lambda>n. getitem D (int n)) ns = map Inr ds'"
    by simp_all
  let ?h = "h @ [(h ! B)(''DiscFac'' \<mapsto> d, ''seed'' \<mapsto> VInt (int n))]"
  have B: "B < length ?h" using Cons.prems(1) by simp
  have hB: "?h ! B = h ! B" using Cons.prems(1) by (simp add: nth_append)
  have "make_types B D (n # ns) (h, ts) = make_types B D ns (?h, ts @ [length h])"
    by (simp only: make_types_step [OF Cons.prems(1)] d ebind_def sum.case)
  also have "\<dots> = Inr (?h @ map (\<lambda>(n, d). (?h ! B)(''DiscFac'' \<mapsto> d, ''seed'' \<mapsto> VInt (int n))) (zip ns ds'),
                (ts @ [length h]) @ [length ?h ..< length ?h + length ns])"
    by (rule Cons.IH [OF B rest])
  also have "\<dots> = Inr (h @ map (\<lambda>(n, d). (h ! B)(''DiscFac'' \<mapsto> d, ''seed'' \<mapsto> VInt (int n))) (zip (n # ns) ds),
                ts @ [length h ..< length h + length (n # ns)])"
  proof -
    have u: "[length h ..< length h + length (n # ns)] =
             length h # [length ?h ..< length ?h + length ns]"
      by (simp add: upt_conv_Cons del: upt_Suc)
    have l: "(ts @ [length h]) @ [length ?h ..< length ?h + length ns] =
             ts @ [length h ..< length h + length (n # ns)]"
      by (simp only: u) simp
    have m: "?h @ map (\<lambda>(n, d). (?h ! B)(''DiscFac'' \<mapsto> d, ''seed'' \<mapsto> VInt (int n))) (zip ns ds') =
             h @ map (\<lambda>(n, d). (h ! B)(''DiscFac'' \<mapsto> d, ''seed'' \<mapsto> VInt (int n))) (zip (n # ns) ds)"
      by (simp add: hB ds)
    show ?thesis by (simp only: l m)
  qed
  finally show ?case .
qed

lemma make_types_items:
  assumes "B < length h"
      and "make_types B D ns (h, ts) = Inr r"
  shows "\<exists>ds. map (\<lambda>n. getitem D (int n)) ns = map Inr ds"
  using assms
proof (induction ns arbitrary: h ts)
  case Nil
  then show ?case by simp
next
  case (Cons n ns)
  have "make_types B D (n # ns) (h, ts) \<noteq> Inr r" if "getitem D (int n) = Inl e" for e
    by (simp only: make_types_step [OF Cons.prems(1)] that ebind_def sum.case) simp
  with Cons.prems(2) obtain d where d: "getitem D (int n) = Inr d"
    by (cases "getitem D (int n)") auto
  let ?h = "h @ [(h ! B)(''DiscFac'' \<mapsto> d, ''seed'' \<mapsto> VInt (int n))]"
  have B: "B < length ?h" using Cons.prems(1) by simp
  have "make_types B D (n # ns) (h, ts) = make_types B D ns (?h, ts @ [length h])"
    by (simp only: make_types_step [OF Cons.prems(1)] d ebind_def sum.case)
  with Cons.prems(2) have "make_types B D ns (?h, ts @ [length h]) = Inr r"
    by simp
  from Cons.IH [OF B this] obtain ds where "map (\<lambda>n. getitem D (int n)) ns = map Inr ds" ..
  with d have "map (\<lambda>n. getitem D (int n)) (n # ns) = map Inr (d # ds)" by simp
  then show ?case ..
qed


lemma make_types_result:
  assumes B: "B < length h"
      and run: "make_types B D ns (h, []) = Inr (h', ts)"
  shows "length ts = length ns \<and> length h' = length h + length ns \<and>
         (\<forall>b<length h. h' ! b = h ! b) \<and>
         (\<forall>k<length ns. ts ! k = length h + k \<and>
            (\<exists>d. getitem D (int (ns ! k)) = Inr d \<and>
                 h' ! (length h + k) = (h ! B)(''DiscFac'' \<mapsto> d, ''seed'' \<mapsto> VInt (int (ns ! k)))))"
proof -
  from make_types_items [OF B run] obtain ds
    where ds: "map (\<lambda>n. getitem D (int n)) ns = map Inr ds" ..
  then have len: "length ds = length ns"
    by (metis length_map)
  from make_types_eq [OF B ds, of "[]"] run
  have h': "h' = h @ map (\<lambda>(n, d). (h ! B)(''DiscFac'' \<mapsto> d, ''seed'' \<mapsto> VInt (int n))) (zip ns ds)"
    and ts: "ts = [length h ..< length h + length ns]"
    by simp_all
  have item: "getitem D (int (ns ! k)) = Inr (ds ! k)" if "k < length ns" for k
  proof -
    from that have "map (\<lambda>n. getitem D (int n)) ns ! k = getitem D (int (ns ! k))" by simp
    moreover from that len have "map Inr ds ! k = (Inr (ds ! k) :: error + val)" by simp
    ultimately show ?thesis using ds by simp
  qed
  have new: "h' ! (length h + k) = (h ! B)(''DiscFac'' \<mapsto> ds ! k, ''seed'' \<mapsto> VInt (int (ns ! k)))"
    if "k < length ns" for k
    using that len by (simp add: h' nth_append)
  show ?thesis
  proof (intro conjI allI impI)
    show "length ts = length ns" by (simp add: ts)
    show "length h' = length h + length ns" by (simp add: h' len)
    show "h' ! b = h ! b" if "b < length h" for b
      using that by (simp add: h' nth_append)
    show "ts ! k = length h + k" if "k < length ns" for k
      using that by (simp add: ts)
    show "\<exists>d. getitem D (int (ns ! k)) = Inr d \<and>
            h' ! (length h + k) = (h ! B)(''DiscFac'' \<mapsto> d, ''seed'' \<mapsto> VInt (int (ns ! k)))"
      if "k < length ns" for k
      using item [OF that] new [OF that] by blast
  qed
qed

lemma ebind_Inr: "ebind m f = Inr y \<Longrightarrow> \<exists>x. m = Inr x \<and> f x = Inr y"
  by (cases m) (simp_all add: ebind_def)

lemma construct_types_parts:
  assumes run: "construct_types IndShockConsumerType approxUniform h = Inr (h', BaselineType, MyTypes)"
  obtains base r DiscFac_dstn where
    "IndShockConsumerType cstwMPC_calibrated_parameters = Inr base"
    "approxUniform num_types (DiscFac_mean - DiscFac_spread) (DiscFac_mean + DiscFac_spread) = Inr r"
    "getitem r 1 = Inr DiscFac_dstn"
    "make_types (length h) DiscFac_dstn [0..<num_types] (h @ [base], []) = Inr (h', MyTypes)"
    "BaselineType = length h"
proof -
  from run [unfolded construct_types_def] obtain base where
    cls: "IndShockConsumerType cstwMPC_calibrated_parameters = Inr base"
    and r1: "ebind (approxUniform num_types (DiscFac_mean - DiscFac_spread)
                      (DiscFac_mean + DiscFac_spread)) (\<lambda>r.
             ebind (getitem r 1) (\<lambda>DiscFac_dstn.
             ebind (make_types (length h) DiscFac_dstn [0..<num_types] (h @ [base], []))
               (\<lambda>(h', MyTypes). Inr (h', length h, MyTypes)))) = Inr (h', BaselineType, MyTypes)"
    by (blast dest: ebind_Inr)
  from r1 obtain r where
    apx: "approxUniform num_types (DiscFac_mean - DiscFac_spread) (DiscFac_mean + DiscFac_spread) = Inr r"
    and r2: "ebind (getitem r 1) (\<lambda>DiscFac_dstn.
             ebind (make_types (length h) DiscFac_dstn [0..<num_types] (h @ [base], []))
               (\<lambda>(h', MyTypes). Inr (h', length h, MyTypes))) = Inr (h', BaselineType, MyTypes)"
    by (blast dest: ebind_Inr)
  from r2 obtain D where
    it: "getitem r 1 = Inr D"
    and r3: "ebind (make_types (length h) D [0..<num_types] (h @ [base], []))
               (\<lambda>(h', MyTypes). Inr (h', length h, MyTypes)) = Inr (h', BaselineType, MyTypes)"
    by (blast dest: ebind_Inr)
  from r3 obtain res where
    mk: "make_types (length h) D [0..<num_types] (h @ [base], []) = Inr res"
    and r4: "(case res of (h', MyTypes) \<Rightarrow> Inr (h', length h, MyTypes)) =
               (Inr (h', BaselineType, MyTypes) :: error + heap \<times> addr \<times> addr list)"
    by (blast dest: ebind_Inr)
  from r4 have "res = (h', MyTypes)" and "BaselineType = length h"
    by (cases res; simp)+
  with cls apx it mk show ?thesis
    by (intro that) simp_all
qed

lemma construct_types_eq:
  assumes cls: "IndShockConsumerType cstwMPC_calibrated_parameters = Inr base"
      and apx: "approxUniform num_types (DiscFac_mean - DiscFac_spread) (DiscFac_mean + DiscFac_spread)
                  = Inr (VList [pmf, VArray X])"
      and len: "num_types \<le> length X"
  shows "construct_types IndShockConsumerType approxUniform h =
           Inr ((h @ [base]) @
                  map (\<lambda>n. (base)(''DiscFac'' \<mapsto> VFloat (X ! n), ''seed'' \<mapsto> VInt (int n))) [0..<num_types],
                length h, [Suc (length h) ..< Suc (length h) + num_types])"
proof -
  let ?D = "VArray X"
  let ?ns = "[0..<num_types]"
  let ?h0 = "h @ [base]"
  have it: "getitem (VList [pmf, VArray X]) 1 = Inr ?D"
    by (simp add: getitem_def py_index_def)
  have pts: "map (\<lambda>n. getitem ?D (int n)) ?ns = map Inr (map (\<lambda>n. VFloat (X ! n)) ?ns)"
    using len by (simp add: getitem_def py_index_def ebind_def)
  have lt: "length h < length ?h0" by simp
  have z: "map (\<lambda>(n, d). (?h0 ! length h)(''DiscFac'' \<mapsto> d, ''seed'' \<mapsto> VInt (int n)))
             (zip ?ns (map (\<lambda>n. VFloat (X ! n)) ?ns)) =
           map (\<lambda>n. (base)(''DiscFac'' \<mapsto> VFloat (X ! n), ''seed'' \<mapsto> VInt (int n))) ?ns"
    by (simp add: zip_map2 zip_same_conv_map)
  have mk: "make_types (length h) ?D ?ns (?h0, []) =
              Inr (?h0 @ map (\<lambda>n. (base)(''DiscFac'' \<mapsto> VFloat (X ! n), ''seed'' \<mapsto> VInt (int n))) ?ns,
                   [Suc (length h) ..< Suc (length h) + num_types])"
    using make_types_eq [OF lt pts, of "[]"] by (simp only: z) simp
  show ?thesis
    by (simp only: construct_types_def cls apx it mk ebind_def sum.case prod.case)
qed

lemma example_types_eq:
  "example_types =
     Inr ([(map_of cstwMPC_calibrated_parameters)(''seed'' \<mapsto> VInt 0)] @
            map (\<lambda>n. ((map_of cstwMPC_calibrated_parameters)(''seed'' \<mapsto> VInt 0))
                   (''DiscFac'' \<mapsto> VFloat (0.97706 + 0.017 * (2 * real n + 1) / 14),
                    ''seed'' \<mapsto> VInt (int n))) [0..<7],
          0, [1..<8])"
proof -
  let ?X = "map (\<lambda>i. (DiscFac_mean - DiscFac_spread) +
                ((DiscFac_mean + DiscFac_spread) - (DiscFac_mean - DiscFac_spread)) *
                (2 * real i + 1) / (2 * real num_types)) [0..<num_types]"
  have cls: "example_class cstwMPC_calibrated_parameters =
               Inr ((map_of cstwMPC_calibrated_parameters)(''seed'' \<mapsto> VInt 0))"
    by (simp add: example_class_def)
  have apx: "example_approxUniform num_types (DiscFac_mean - DiscFac_spread)
               (DiscFac_mean + DiscFac_spread) =
             Inr (VList [VArray (replicate num_types (1 / real num_types)), VArray ?X])"
    by (simp add: example_approxUniform_def)
  have len: "num_types \<le> length ?X" by simp
  have pt: "n < 7 \<Longrightarrow> ?X ! n = 0.97706 + 0.017 * (2 * real n + 1) / 14" for n
    by (simp add: num_types_def DiscFac_mean_def DiscFac_spread_def del: upt_Suc)
  have "map (\<lambda>n. ((map_of cstwMPC_calibrated_parameters)(''seed'' \<mapsto> VInt 0))
                   (''DiscFac'' \<mapsto> VFloat (?X ! n), ''seed'' \<mapsto> VInt (int n))) [0..<7] =
        map (\<lambda>n. ((map_of cstwMPC_calibrated_parameters)(''seed'' \<mapsto> VInt 0))
                   (''DiscFac'' \<mapsto> VFloat (0.97706 + 0.017 * (2 * real n + 1) / 14),
                    ''seed'' \<mapsto> VInt (int n))) [0..<7]"
    by (rule map_cong [OF refl]) (simp only: pt atLeastLessThan_iff set_upt)
  with construct_types_eq [of example_class _ example_approxUniform _ ?X "[]", OF cls apx len]
  show ?thesis
    by (simp add: example_types_def num_types_def del: upt_Suc)
qed

text \<open>
  C2, as stated: a copy differs from \<open>BaselineType\<close> in \<open>DiscFac\<close> only. With a
  class that gives a new instance the seed 0, the second copy has seed 1.
\<close>

theorem copies_differ_only_in_DiscFac_counterexample:
  "MyTypes_attr example_types 1 ''seed'' = Inr (VInt 1) \<and>
   BaselineType_attr example_types ''seed'' = Inr (VInt 0)"
  by (simp add: example_types_eq MyTypes_attr_def BaselineType_attr_def ebind_def py_index_def
        getattr_def nth_append del: upt_Suc)

text \<open>
  C2 (amended): the cell leaves \<open>num_types\<close> instances in \<open>MyTypes\<close>, each a copy
  held apart from \<open>BaselineType\<close>, and each differing from it in at most the two
  fields the loop assigns, \<open>DiscFac\<close> and \<open>seed\<close>: every other field reads the same on
  the copy and on \<open>BaselineType\<close>, which is still as its constructor built it.
\<close>

theorem copies_differ_in_DiscFac_and_seed:
  assumes "construct_types IndShockConsumerType approxUniform h = Inr (h', BaselineType, MyTypes)"
  shows "length MyTypes = num_types \<and>
         IndShockConsumerType cstwMPC_calibrated_parameters = Inr (h' ! BaselineType) \<and>
         (\<forall>i<length MyTypes.
            MyTypes ! i \<noteq> BaselineType \<and>
            (\<forall>f. f \<noteq> ''DiscFac'' \<and> f \<noteq> ''seed'' \<longrightarrow>
                 getattr h' (MyTypes ! i) f = getattr h' BaselineType f))"
proof -
  from assms obtain base r D where
    cls: "IndShockConsumerType cstwMPC_calibrated_parameters = Inr base"
    and mk: "make_types (length h) D [0..<num_types] (h @ [base], []) = Inr (h', MyTypes)"
    and B: "BaselineType = length h"
    by (rule construct_types_parts)
  have lt: "length h < length (h @ [base])" by simp
  note res = make_types_result [OF lt mk]
  from res have len: "length MyTypes = num_types" by simp
  from res have hlen: "length h' = Suc (length h) + num_types" by simp
  from res have old: "h' ! length h = base" by (simp add: nth_append)
  have copy: "MyTypes ! i = Suc (length h) + i \<and>
              (\<forall>f. f \<noteq> ''DiscFac'' \<and> f \<noteq> ''seed'' \<longrightarrow> (h' ! (MyTypes ! i)) f = base f)"
    if "i < num_types" for i
  proof -
    from res that have a: "MyTypes ! i = Suc (length h) + i" by simp
    from res that obtain d where
      "h' ! (Suc (length h) + i) = (base)(''DiscFac'' \<mapsto> d, ''seed'' \<mapsto> VInt (int ([0..<num_types] ! i)))"
      by (auto simp: nth_append)
    with a show ?thesis by simp
  qed
  show ?thesis
  proof (intro conjI allI impI)
    show "length MyTypes = num_types" by (rule len)
    show "IndShockConsumerType cstwMPC_calibrated_parameters = Inr (h' ! BaselineType)"
      by (simp add: cls B old)
  next
    fix i assume i: "i < length MyTypes"
    with len have i': "i < num_types" by simp
    from copy [OF i'] show "MyTypes ! i \<noteq> BaselineType" by (simp add: B)
  next
    fix i f assume i: "i < length MyTypes" and f: "f \<noteq> ''DiscFac'' \<and> f \<noteq> ''seed''"
    with len have i': "i < num_types" by simp
    from copy [OF i'] f have "(h' ! (MyTypes ! i)) f = base f" by blast
    moreover from copy [OF i'] i' hlen have "MyTypes ! i < length h'" by simp
    moreover have "BaselineType < length h'" using hlen B by simp
    ultimately show "getattr h' (MyTypes ! i) f = getattr h' BaselineType f"
      by (simp add: getattr_def B old)
  qed
qed

theorem copies_differ_in_DiscFac_and_seed_witness:
  "MyTypes_attr example_types 6 ''CRRA'' = BaselineType_attr example_types ''CRRA'' \<and>
   BaselineType_attr example_types ''CRRA'' = Inr (VFloat 1)"
proof -
  obtain h' where run: "construct_types example_class example_approxUniform [] = Inr (h', 0, [1..<8])"
    and h0: "h' ! 0 = (map_of cstwMPC_calibrated_parameters)(''seed'' \<mapsto> VInt 0)"
    and len: "length h' = 8"
    using example_types_eq by (simp add: example_types_def)
  from copies_differ_in_DiscFac_and_seed [OF run]
  have "\<forall>i<length [1::nat..<8]. \<forall>f. f \<noteq> ''DiscFac'' \<and> f \<noteq> ''seed'' \<longrightarrow>
          getattr h' ([1..<8] ! i) f = getattr h' 0 f"
    by blast
  from this [rule_format, of 6 "''CRRA''"]
  have "getattr h' ([1..<8] ! 6) ''CRRA'' = getattr h' 0 ''CRRA''"
    by simp
  moreover have "getattr h' 0 ''CRRA'' = Inr (VFloat 1)"
    by (simp add: getattr_def len h0 cstwMPC_calibrated_parameters_def)
  ultimately show ?thesis
    by (simp add: example_types_def run MyTypes_attr_def BaselineType_attr_def ebind_def
          py_index_def del: upt_Suc)
qed

text \<open>
  C9: when the class builds an instance and \<open>approxUniform\<close> returns its weights and
  an array of at least \<open>num_types\<close> points, the cell ends with seven pairwise
  distinct instances in \<open>MyTypes\<close>; the one at index \<open>i\<close> has seed \<open>i\<close> and, as
  its \<open>DiscFac\<close>, the point at index \<open>i\<close>.
\<close>

theorem construct_types_seeds_and_points:
  assumes cls: "IndShockConsumerType cstwMPC_calibrated_parameters = Inr base"
      and apx: "approxUniform num_types (DiscFac_mean - DiscFac_spread) (DiscFac_mean + DiscFac_spread)
                  = Inr (VList [pmf, VArray X])"
      and len: "num_types \<le> length X"
  shows "\<exists>h' MyTypes.
           construct_types IndShockConsumerType approxUniform h = Inr (h', length h, MyTypes) \<and>
           length MyTypes = 7 \<and> distinct MyTypes \<and>
           distinct (map (\<lambda>ThisType. getattr h' ThisType ''seed'') MyTypes) \<and>
           (\<forall>i<7. getattr h' (MyTypes ! i) ''seed'' = Inr (VInt (int i)) \<and>
                   getattr h' (MyTypes ! i) ''DiscFac'' = Inr (VFloat (X ! i)))"
proof -
  define h' where "h' = (h @ [base]) @
     map (\<lambda>n. (base)(''DiscFac'' \<mapsto> VFloat (X ! n), ''seed'' \<mapsto> VInt (int n))) [0..<num_types]"
  define MyTypes where "MyTypes = [Suc (length h) ..< Suc (length h) + num_types]"
  have run: "construct_types IndShockConsumerType approxUniform h = Inr (h', length h, MyTypes)"
    unfolding h'_def MyTypes_def
    by (rule construct_types_eq [of IndShockConsumerType base approxUniform pmf X h, OF cls apx len])
  have n7: "num_types = 7" by (simp add: num_types_def)
  have l: "length MyTypes = 7" by (simp add: MyTypes_def n7)
  have d: "distinct MyTypes" by (simp add: MyTypes_def)
  have at: "getattr h' (MyTypes ! i) ''seed'' = Inr (VInt (int i)) \<and>
            getattr h' (MyTypes ! i) ''DiscFac'' = Inr (VFloat (X ! i))" if "i < 7" for i
  proof -
    from that have i: "i < num_types" by (simp add: n7)
    then have a: "MyTypes ! i = Suc (length h) + i" by (simp add: MyTypes_def del: upt_Suc)
    have "h' ! (Suc (length h) + i) =
            (base)(''DiscFac'' \<mapsto> VFloat (X ! i), ''seed'' \<mapsto> VInt (int i))"
      using i by (simp add: h'_def nth_append)
    moreover have "Suc (length h) + i < length h'" using i by (simp add: h'_def)
    ultimately show ?thesis by (simp add: a getattr_def)
  qed
  have "map (\<lambda>ThisType. getattr h' ThisType ''seed'') MyTypes =
        map (\<lambda>i. Inr (VInt (int i))) [0..<7]"
    by (rule nth_equalityI) (simp_all add: l at del: upt_Suc)
  then have ds: "distinct (map (\<lambda>ThisType. getattr h' ThisType ''seed'') MyTypes)"
    by (simp add: distinct_map inj_on_def del: upt_Suc)
  from run l d ds at show ?thesis by blast
qed

theorem construct_types_seeds_and_points_witness:
  "MyTypes_attr example_types 3 ''seed'' = Inr (VInt 3) \<and>
   MyTypes_attr example_types 3 ''DiscFac'' = Inr (VFloat 0.98556)"
proof -
  let ?X = "map (\<lambda>i. (DiscFac_mean - DiscFac_spread) +
                ((DiscFac_mean + DiscFac_spread) - (DiscFac_mean - DiscFac_spread)) *
                (2 * real i + 1) / (2 * real num_types)) [0..<num_types]"
  have cls: "example_class cstwMPC_calibrated_parameters =
               Inr ((map_of cstwMPC_calibrated_parameters)(''seed'' \<mapsto> VInt 0))"
    by (simp add: example_class_def)
  have apx: "example_approxUniform num_types (DiscFac_mean - DiscFac_spread)
               (DiscFac_mean + DiscFac_spread) =
             Inr (VList [VArray (replicate num_types (1 / real num_types)), VArray ?X])"
    by (simp add: example_approxUniform_def)
  have len: "num_types \<le> length ?X" by simp
  have pt: "?X ! 3 = 0.98556"
    by (simp add: num_types_def DiscFac_mean_def DiscFac_spread_def del: upt_Suc)
  from construct_types_seeds_and_points
         [of example_class _ example_approxUniform _ ?X "[]", OF cls apx len]
  obtain h' MyTypes where
    run: "construct_types example_class example_approxUniform [] = Inr (h', 0, MyTypes)"
    and l: "length MyTypes = 7"
    and at: "getattr h' (MyTypes ! 3) ''seed'' = Inr (VInt 3)"
            "getattr h' (MyTypes ! 3) ''DiscFac'' = Inr (VFloat (?X ! 3))"
    by auto
  from l at show ?thesis
    by (simp only: example_types_def run MyTypes_attr_def ebind_def py_index_def pt
          sum.case prod.case) simp
qed


end
